theory Spec2Isabelle
  imports Complex_Main
begin

section \<open>Errors\<close>

text \<open>
  The exceptions the endpoints of \<^verbatim>\<open>main.py\<close> can meet. \<open>UpstreamError\<close> stands for
  anything the market-data collaborator raises.
\<close>

datatype error = ValueError | OverflowError | ZeroDivisionError | KeyError | UpstreamError

section \<open>Calendar dates\<close>

text \<open>
  A \<^verbatim>\<open>datetime\<close> value: the calendar date and the time of day, the latter in
  microseconds since midnight. The functions below follow the proleptic Gregorian
  calendar of Python's \<^verbatim>\<open>datetime\<close> module (\<^verbatim>\<open>_is_leap\<close>,
  \<^verbatim>\<open>_days_in_month\<close>, \<^verbatim>\<open>_days_before_year\<close>, \<^verbatim>\<open>_days_before_month\<close>,
  \<^verbatim>\<open>_ymd2ord\<close>).
\<close>

record datetime =
  year :: int
  month :: int
  day :: int
  tod :: int

definition usec_per_day :: int where
  "usec_per_day = 86400000000"

definition is_leap :: "int \<Rightarrow> bool" where
  "is_leap y = (y mod 4 = 0 \<and> (y mod 100 \<noteq> 0 \<or> y mod 400 = 0))"

definition DAYS_IN_MONTH :: "int list" where
  "DAYS_IN_MONTH = [31, 28, 31, 30, 31, 30, 31, 31, 30, 31, 30, 31]"

definition DAYS_BEFORE_MONTH :: "int list" where
  "DAYS_BEFORE_MONTH = [0, 31, 59, 90, 120, 151, 181, 212, 243, 273, 304, 334]"

definition days_in_month :: "int \<Rightarrow> int \<Rightarrow> int" where
  "days_in_month y m = (if m = 2 \<and> is_leap y then 29 else DAYS_IN_MONTH ! nat (m - 1))"

definition days_before_year :: "int \<Rightarrow> int" where
  "days_before_year y = (y - 1) * 365 + (y - 1) div 4 - (y - 1) div 100 + (y - 1) div 400"

definition days_before_month :: "int \<Rightarrow> int \<Rightarrow> int" where
  "days_before_month y m = DAYS_BEFORE_MONTH ! nat (m - 1) + (if m > 2 \<and> is_leap y then 1 else 0)"

definition ymd2ord :: "int \<Rightarrow> int \<Rightarrow> int \<Rightarrow> int" where
  "ymd2ord y m d = days_before_year y + days_before_month y m + d"

definition toordinal :: "datetime \<Rightarrow> int" where
  "toordinal dt = ymd2ord (year dt) (month dt) (day dt)"

definition valid_date :: "int \<Rightarrow> int \<Rightarrow> int \<Rightarrow> bool" where
  "valid_date y m d = (1 \<le> y \<and> y \<le> 9999 \<and> 1 \<le> m \<and> m \<le> 12 \<and> 1 \<le> d \<and> d \<le> days_in_month y m)"

definition valid_datetime :: "datetime \<Rightarrow> bool" where
  "valid_datetime dt = (valid_date (year dt) (month dt) (day dt) \<and> 0 \<le> tod dt \<and> tod dt < usec_per_day)"

text \<open>\<^verbatim>\<open>datetime(y, m, d)\<close>: midnight of that day, or \<^verbatim>\<open>ValueError\<close> when there is no such day.\<close>

definition mk_datetime :: "int \<Rightarrow> int \<Rightarrow> int \<Rightarrow> error + datetime" where
  "mk_datetime y m d =
     (if valid_date y m d then Inr \<lparr>year = y, month = m, day = d, tod = 0\<rparr>
      else Inl ValueError)"

text \<open>
  \<^verbatim>\<open>dt - timedelta(days=n)\<close>: the time of day is kept and the date moves back one day at
  a time; leaving year 1 is \<^verbatim>\<open>OverflowError\<close>.
\<close>

definition prev_day :: "datetime \<Rightarrow> datetime" where
  "prev_day dt =
     (if day dt > 1 then dt\<lparr>day := day dt - 1\<rparr>
      else if month dt > 1
        then dt\<lparr>month := month dt - 1, day := days_in_month (year dt) (month dt - 1)\<rparr>
      else dt\<lparr>year := year dt - 1, month := 12, day := 31\<rparr>)"

fun sub_days :: "datetime \<Rightarrow> nat \<Rightarrow> error + datetime" where
  "sub_days dt 0 = Inr dt"
| "sub_days dt (Suc n) =
     (if year dt = 1 \<and> month dt = 1 \<and> day dt = 1 then Inl OverflowError
      else sub_days (prev_day dt) n)"

text \<open>Comparison of two instants, and the \<^verbatim>\<open>.days\<close> of their difference.\<close>

definition dt_le :: "datetime \<Rightarrow> datetime \<Rightarrow> bool" where
  "dt_le a b =
     (year a < year b \<or> (year a = year b \<and>
       (month a < month b \<or> (month a = month b \<and>
         (day a < day b \<or> (day a = day b \<and> tod a \<le> tod b))))))"

definition delta_days :: "datetime \<Rightarrow> datetime \<Rightarrow> int" where
  "delta_days a b = (toordinal a - toordinal b) + (tod a - tod b) div usec_per_day"

section \<open>Floating-point values\<close>

text \<open>
  A price or a metric is a NumPy \<^verbatim>\<open>float64\<close>. The model keeps the three kinds of
  special value apart from the finite ones and computes on finite values exactly, as real
  numbers: binary rounding error, overflow to infinity and the sign of zero are left out.
  The special cases are those of IEEE 754 as NumPy scalars apply them: a division by zero
  or a fractional power of a negative base gives a warning and an infinity or NaN, never
  an exception.
\<close>

datatype float64 = Fin real | PInf | NInf | NaN

fun isnan :: "float64 \<Rightarrow> bool" where
  "isnan NaN = True"
| "isnan _ = False"

fun isfinite :: "float64 \<Rightarrow> bool" where
  "isfinite (Fin _) = True"
| "isfinite _ = False"

fun fneg :: "float64 \<Rightarrow> float64" where
  "fneg (Fin x) = Fin (- x)"
| "fneg PInf = NInf"
| "fneg NInf = PInf"
| "fneg NaN = NaN"

fun fsub :: "float64 \<Rightarrow> float64 \<Rightarrow> float64" where
  "fsub NaN _ = NaN"
| "fsub _ NaN = NaN"
| "fsub (Fin x) (Fin y) = Fin (x - y)"
| "fsub (Fin x) PInf = NInf"
| "fsub (Fin x) NInf = PInf"
| "fsub PInf PInf = NaN"
| "fsub PInf _ = PInf"
| "fsub NInf NInf = NaN"
| "fsub NInf _ = NInf"

fun fmul :: "float64 \<Rightarrow> float64 \<Rightarrow> float64" where
  "fmul NaN _ = NaN"
| "fmul _ NaN = NaN"
| "fmul (Fin x) (Fin y) = Fin (x * y)"
| "fmul (Fin x) i = (if x > 0 then i else if x < 0 then fneg i else NaN)"
| "fmul i (Fin y) = (if y > 0 then i else if y < 0 then fneg i else NaN)"
| "fmul PInf i = i"
| "fmul NInf i = fneg i"

fun fdiv :: "float64 \<Rightarrow> float64 \<Rightarrow> float64" where
  "fdiv NaN _ = NaN"
| "fdiv _ NaN = NaN"
| "fdiv (Fin x) (Fin y) =
     (if y \<noteq> 0 then Fin (x / y)
      else if x > 0 then PInf else if x < 0 then NInf else NaN)"
| "fdiv (Fin x) _ = Fin 0"
| "fdiv i (Fin y) = (if y \<ge> 0 then i else fneg i)"
| "fdiv _ _ = NaN"

text \<open>
  \<^verbatim>\<open>b ** e\<close> for a \<^verbatim>\<open>float64\<close> base and a finite Python float exponent: a negative base
  has a power only at an integral exponent.
\<close>

definition is_integral :: "real \<Rightarrow> bool" where
  "is_integral e = (of_int \<lfloor>e\<rfloor> = e)"

fun fpow :: "float64 \<Rightarrow> real \<Rightarrow> float64" where
  "fpow NaN e = (if e = 0 then Fin 1 else NaN)"
| "fpow PInf e = (if e = 0 then Fin 1 else if e > 0 then PInf else Fin 0)"
| "fpow NInf e =
     (if e = 0 then Fin 1
      else if e > 0 then (if is_integral e \<and> odd \<lfloor>e\<rfloor> then NInf else PInf)
      else Fin 0)"
| "fpow (Fin x) e =
     (if e = 0 then Fin 1
      else if x > 0 then Fin (x powr e)
      else if x = 0 then (if e > 0 then Fin 0 else PInf)
      else if is_integral e then Fin (x powi \<lfloor>e\<rfloor>)
      else NaN)"

text \<open>
  \<^verbatim>\<open>round(x, n)\<close>: to the nearest multiple of \<open>10\<^sup>-\<^sup>n\<close>, a tie going to the even
  neighbour; infinities and NaN round to themselves.
\<close>

definition round_half_even :: "real \<Rightarrow> int" where
  "round_half_even x =
     (let f = \<lfloor>x\<rfloor>; d = x - of_int f
      in if d < 1/2 then f else if d > 1/2 then f + 1 else if even f then f else f + 1)"

definition round_nd :: "nat \<Rightarrow> real \<Rightarrow> real" where
  "round_nd n x = of_int (round_half_even (x * 10 ^ n)) / 10 ^ n"

fun fround :: "nat \<Rightarrow> float64 \<Rightarrow> float64" where
  "fround n (Fin x) = Fin (round_nd n x)"
| "fround n v = v"

section \<open>Window resolution\<close>

text \<open>
  The table endpoints fix all five window starts at the top of each call
  (\<^verbatim>\<open>get_equities_table\<close>, lines 116 to 121, and its five copies). A failing
  constructor is outside the per-symbol \<^verbatim>\<open>try\<close> and ends the whole request.
\<close>

record windows =
  start_ytd :: datetime
  start_mtd :: datetime
  start_5d :: datetime
  start_5y :: datetime
  start_10y :: datetime

definition table_windows :: "datetime \<Rightarrow> error + windows" where
  "table_windows end_date =
     (case mk_datetime (year end_date) 1 1 of Inl e \<Rightarrow> Inl e | Inr ytd \<Rightarrow>
      case mk_datetime (year end_date) (month end_date) 1 of Inl e \<Rightarrow> Inl e | Inr mtd \<Rightarrow>
      case sub_days end_date 5 of Inl e \<Rightarrow> Inl e | Inr d5 \<Rightarrow>
      case mk_datetime (year end_date - 5) (month end_date) (day end_date) of
        Inl e \<Rightarrow> Inl e | Inr y5 \<Rightarrow>
      case mk_datetime (year end_date - 10) (month end_date) (day end_date) of
        Inl e \<Rightarrow> Inl e | Inr y10 \<Rightarrow>
      Inr \<lparr>start_ytd = ytd, start_mtd = mtd, start_5d = d5, start_5y = y5, start_10y = y10\<rparr>)"

text \<open>
  The chart endpoints build the dictionary \<^verbatim>\<open>time_periods\<close> with all five entries
  (\<^verbatim>\<open>get_equity_performance\<close>, lines 1037 to 1044), then look the lower-cased
  parameter up with the \<^verbatim>\<open>ytd\<close> entry as default (line 1047).
\<close>

definition time_periods :: "datetime \<Rightarrow> error + (string \<times> datetime) list" where
  "time_periods end_date =
     (case sub_days end_date 5 of Inl e \<Rightarrow> Inl e | Inr d5 \<Rightarrow>
      case mk_datetime (year end_date) (month end_date) 1 of Inl e \<Rightarrow> Inl e | Inr mtd \<Rightarrow>
      case mk_datetime (year end_date) 1 1 of Inl e \<Rightarrow> Inl e | Inr ytd \<Rightarrow>
      case mk_datetime (year end_date - 5) (month end_date) (day end_date) of
        Inl e \<Rightarrow> Inl e | Inr y5 \<Rightarrow>
      case mk_datetime (year end_date - 10) (month end_date) (day end_date) of
        Inl e \<Rightarrow> Inl e | Inr y10 \<Rightarrow>
      Inr [(''5d'', d5), (''mtd'', mtd), (''ytd'', ytd), (''5y'', y5), (''10y'', y10)])"

text \<open>
  \<^verbatim>\<open>str.lower\<close> on the ASCII letters; every other character is kept. (No character
  outside ASCII lower-cases to a letter or digit of the five tokens.)
\<close>

definition lower_char :: "char \<Rightarrow> char" where
  "lower_char c =
     (if 65 \<le> (of_char c :: nat) \<and> (of_char c :: nat) \<le> 90
      then char_of (of_char c + 32 :: nat) else c)"

definition lower :: "string \<Rightarrow> string" where
  "lower s = map lower_char s"

definition dict_item :: "(string \<times> 'v) list \<Rightarrow> string \<Rightarrow> error + 'v" where
  "dict_item d k = (case map_of d k of None \<Rightarrow> Inl KeyError | Some v \<Rightarrow> Inr v)"

definition dict_get :: "(string \<times> 'v) list \<Rightarrow> string \<Rightarrow> 'v \<Rightarrow> 'v" where
  "dict_get d k dflt = (case map_of d k of None \<Rightarrow> dflt | Some v \<Rightarrow> v)"

definition chart_start :: "datetime \<Rightarrow> string \<Rightarrow> error + datetime" where
  "chart_start end_date start_date =
     (case time_periods end_date of Inl e \<Rightarrow> Inl e | Inr tp \<Rightarrow>
      case dict_item tp ''ytd'' of Inl e \<Rightarrow> Inl e | Inr dflt \<Rightarrow>
      Inr (dict_get tp (lower start_date) dflt))"

text \<open>The query parameter with its default: \<^verbatim>\<open>start_date: str = "ytd"\<close>.\<close>

definition start_date_param :: "string option \<Rightarrow> string" where
  "start_date_param q = (case q of None \<Rightarrow> ''ytd'' | Some s \<Rightarrow> s)"

definition period_tokens :: "string list" where
  "period_tokens = [''5d'', ''mtd'', ''ytd'', ''5y'', ''10y'']"

section \<open>Price series and metrics\<close>

text \<open>
  A fetched frame, reduced to what the endpoints read: the index and the \<^verbatim>\<open>close\<close>
  column, in the order of the frame. The provider is the upstream collaborator, called
  with a symbol and a start date; it may raise.
\<close>

type_synonym series = "(datetime \<times> float64) list"

type_synonym provider = "string \<Rightarrow> datetime \<Rightarrow> error + series"

text \<open>
  \<^verbatim>\<open>df.loc[idx, 'close']\<close> is a scalar when the label \<^verbatim>\<open>idx\<close> occurs once in the
  index and a sub-series when it occurs more often; arithmetic on a sub-series gives a
  sub-series again, and its truth value, asked for when the row is built, raises
  \<^verbatim>\<open>ValueError\<close>.
\<close>

datatype cell = Scalar float64 | NonScalar

definition loc_close :: "series \<Rightarrow> datetime \<Rightarrow> cell" where
  "loc_close df idx =
     (case filter (\<lambda>p. fst p = idx) df of [p] \<Rightarrow> Scalar (snd p) | _ \<Rightarrow> NonScalar)"

definition change_pct :: "float64 \<Rightarrow> float64 \<Rightarrow> float64" where
  "change_pct latest_close window_close =
     fmul (fdiv (fsub latest_close window_close) window_close) (Fin 100)"

text \<open>The 5D, MTD and YTD blocks (lines 139 to 174).\<close>

definition window_change :: "series \<Rightarrow> datetime \<Rightarrow> cell" where
  "window_change df start =
     (case filter (\<lambda>p. dt_le start (fst p)) df of
        [] \<Rightarrow> Scalar NaN
      | p # _ \<Rightarrow>
          (case loc_close df (fst p) of
             NonScalar \<Rightarrow> NonScalar
           | Scalar window_close \<Rightarrow> Scalar (change_pct (snd (last df)) window_close)))"

text \<open>The 5Y and 10Y blocks (lines 176 to 194).\<close>

definition cagr :: "float64 \<Rightarrow> float64 \<Rightarrow> real \<Rightarrow> float64" where
  "cagr latest_price start_price years =
     fmul (fsub (fpow (fdiv latest_price start_price) (1 / years)) (Fin 1)) (Fin 100)"

definition elapsed_years :: "datetime \<Rightarrow> datetime \<Rightarrow> real" where
  "elapsed_years end_date start = real_of_int (delta_days end_date start) / (1461 / 4)"

definition window_cagr :: "series \<Rightarrow> datetime \<Rightarrow> datetime \<Rightarrow> float64 \<Rightarrow> error + float64" where
  "window_cagr df end_date start latest_price =
     (case filter (\<lambda>p. dt_le start (fst p)) df of
        [] \<Rightarrow> Inr NaN
      | p # _ \<Rightarrow>
          (let start_price = snd p; years = elapsed_years end_date start
           in if years = 0 then Inl ZeroDivisionError
              else Inr (cagr latest_price start_price years)))"

text \<open>
  A cell of the output row (lines 198 to 202):
  \<^verbatim>\<open>round(float(v), 1) if not np.isnan(v) else None\<close>.
\<close>

definition out_value :: "float64 \<Rightarrow> float64 option" where
  "out_value v = (if \<not> isnan v then Some (fround 1 v) else None)"

definition out_field :: "cell \<Rightarrow> error + float64 option" where
  "out_field c = (case c of NonScalar \<Rightarrow> Inl ValueError | Scalar v \<Rightarrow> Inr (out_value v))"

section \<open>The table endpoints\<close>

record row =
  label :: string
  f_5D :: "float64 option"
  f_MTD :: "float64 option"
  f_YTD :: "float64 option"
  f_5Y_CAGR :: "float64 option"
  f_10Y_CAGR :: "float64 option"
  f_Value :: float64

text \<open>
  What one pass of the loop body does for a symbol: \<^verbatim>\<open>continue\<close> on a short frame, an
  exception caught and printed, or one element appended to the output.
\<close>

datatype 'a outcome = Skipped | Failed error | Produced 'a

definition symbol_row :: "provider \<Rightarrow> datetime \<Rightarrow> windows \<Rightarrow> string \<times> string \<Rightarrow> row outcome" where
  "symbol_row fetch end_date w sn =
     (case fetch (fst sn) (start_10y w) of
        Inl e \<Rightarrow> Failed e
      | Inr df \<Rightarrow>
          if df = [] \<or> length df < 2 then Skipped
          else
            let latest_price = fround 2 (snd (last df));
                five_day_change_pct = window_change df (start_5d w);
                mtd_change_pct = window_change df (start_mtd w);
                ytd_change_pct = window_change df (start_ytd w)
            in
              case window_cagr df end_date (start_5y w) latest_price of
                Inl e \<Rightarrow> Failed e | Inr five_y_cagr \<Rightarrow>
              case window_cagr df end_date (start_10y w) latest_price of
                Inl e \<Rightarrow> Failed e | Inr ten_y_cagr \<Rightarrow>
              case out_field five_day_change_pct of Inl e \<Rightarrow> Failed e | Inr o5d \<Rightarrow>
              case out_field mtd_change_pct of Inl e \<Rightarrow> Failed e | Inr omtd \<Rightarrow>
              case out_field ytd_change_pct of Inl e \<Rightarrow> Failed e | Inr oytd \<Rightarrow>
              Produced \<lparr>label = snd sn, f_5D = o5d, f_MTD = omtd, f_YTD = oytd,
                        f_5Y_CAGR = out_value five_y_cagr, f_10Y_CAGR = out_value ten_y_cagr,
                        f_Value = fround 1 latest_price\<rparr>)"

text \<open>The loop over the basket: only a produced element reaches the output.\<close>

fun collect :: "('a \<Rightarrow> 'b outcome) \<Rightarrow> 'a list \<Rightarrow> 'b list" where
  "collect f [] = []"
| "collect f (s # ss) = (case f s of Produced r \<Rightarrow> r # collect f ss | _ \<Rightarrow> collect f ss)"

text \<open>
  The six table endpoints differ in their basket and in the key under which the display
  name is stored (\<^verbatim>\<open>Index\<close>, \<^verbatim>\<open>ETF\<close>, \<^verbatim>\<open>Currency\<close>, \<^verbatim>\<open>Asset\<close>) and in nothing
  else, so the basket is a parameter; \<open>end_date\<close> is the value of \<^verbatim>\<open>datetime.now()\<close>.
\<close>

definition get_table :: "(string \<times> string) list \<Rightarrow> provider \<Rightarrow> datetime \<Rightarrow> error + row list" where
  "get_table symbols fetch end_date =
     (case table_windows end_date of
        Inl e \<Rightarrow> Inl e
      | Inr w \<Rightarrow> Inr (collect (symbol_row fetch end_date w) symbols))"

definition equities_table_symbols :: "(string \<times> string) list" where
  "equities_table_symbols =
     [(''^NDX'', ''NASDAQ''), (''^GSPC'', ''S&P 500''), (''VEU'', ''IEF (Global Ex-US)''),
      (''FEZ'', ''STOXX 50''), (''^N225'', ''NIKKEI''), (''ASHR'', ''CSI 300'')]"

definition get_equities_table :: "provider \<Rightarrow> datetime \<Rightarrow> error + row list" where
  "get_equities_table = get_table equities_table_symbols"

section \<open>The chart endpoints\<close>

record trace =
  trace_name :: string
  trace_x :: "datetime list"
  trace_y :: "float64 list"

text \<open>Line 1083: \<^verbatim>\<open>df['close'] / df['close'].iloc[0] * 100\<close>, element by element.\<close>

definition normalized_data :: "series \<Rightarrow> float64 list" where
  "normalized_data df = map (\<lambda>p. fmul (fdiv (snd p) (snd (hd df))) (Fin 100)) df"

definition symbol_trace :: "provider \<Rightarrow> datetime \<Rightarrow> string \<times> string \<Rightarrow> trace outcome" where
  "symbol_trace fetch start sn =
     (case fetch (fst sn) start of
        Inl e \<Rightarrow> Failed e
      | Inr df \<Rightarrow>
          if df = [] \<or> length df < 2 then Skipped
          else Produced \<lparr>trace_name = snd sn, trace_x = map fst df,
                         trace_y = normalized_data df\<rparr>)"

definition get_performance ::
  "(string \<times> string) list \<Rightarrow> provider \<Rightarrow> datetime \<Rightarrow> string option \<Rightarrow> error + trace list" where
  "get_performance symbols fetch end_date q =
     (case chart_start end_date (start_date_param q) of
        Inl e \<Rightarrow> Inl e
      | Inr start \<Rightarrow> Inr (collect (symbol_trace fetch start) symbols))"

definition equity_performance_symbols :: "(string \<times> string) list" where
  "equity_performance_symbols =
     [(''^GSPC'', ''S&P 500''), (''^DJI'', ''Dow Jones''), (''^IXIC'', ''NASDAQ''),
      (''^FTSE'', ''FTSE 100''), (''^N225'', ''Nikkei 225''), (''^HSI'', ''Hang Seng'')]"

definition get_equity_performance :: "provider \<Rightarrow> datetime \<Rightarrow> string option \<Rightarrow> error + trace list" where
  "get_equity_performance = get_performance equity_performance_symbols"

section \<open>Example data\<close>

text \<open>
  A reference instant, the windows it gives, and some frames, for the worked examples
  below: a live series, a series that ended years ago, and a provider that serves one
  basket.
\<close>

definition midnight :: "int \<Rightarrow> int \<Rightarrow> int \<Rightarrow> datetime" where
  "midnight y m d = \<lparr>year = y, month = m, day = d, tod = 0\<rparr>"

definition demo_now :: datetime where
  "demo_now = \<lparr>year = 2024, month = 3, day = 15, tod = 52200000000\<rparr>"

definition demo_windows :: windows where
  "demo_windows =
     \<lparr>start_ytd = midnight 2024 1 1, start_mtd = midnight 2024 3 1,
      start_5d = \<lparr>year = 2024, month = 3, day = 10, tod = 52200000000\<rparr>,
      start_5y = midnight 2019 3 15, start_10y = midnight 2014 3 15\<rparr>"

definition leap_now :: datetime where
  "leap_now = \<lparr>year = 2024, month = 2, day = 29, tod = 43200000000\<rparr>"

definition demo_series :: series where
  "demo_series =
     [(midnight 2023 12 29, Fin 80), (midnight 2024 1 2, Fin 100), (midnight 2024 3 1, Fin 110),
      (midnight 2024 3 11, Fin 120), (midnight 2024 3 14, Fin 121)]"


definition short_series :: series where
  "short_series = [(midnight 2024 3 14, Fin 7)]"

definition pair_series :: series where
  "pair_series = [(midnight 2024 3 13, Fin 50), (midnight 2024 3 14, Fin 75)]"



definition zero_series :: series where
  "zero_series = [(midnight 2020 1 2, Fin 0), (midnight 2024 3 14, Fin 100)]"

definition sparse_zero_series :: series where
  "sparse_zero_series =
     [(midnight 2018 1 2, Fin 50), (midnight 2021 1 4, Fin 0), (midnight 2024 3 14, Fin 100)]"

definition demo_fetch :: "series \<Rightarrow> provider" where
  "demo_fetch df = (\<lambda>symbol start. if symbol = ''^GSPC'' then Inr df else Inl UpstreamError)"

definition basket_fetch :: provider where
  "basket_fetch =
     (\<lambda>symbol start.
        if symbol = ''B''
        then (if start = midnight 2014 3 15 \<or> start = midnight 2024 1 1 then Inr short_series
              else Inr demo_series)
        else Inr pair_series)"

section \<open>The loop over the basket\<close>

lemma collect_append: "collect f (xs @ ys) = collect f xs @ collect f ys"
  by (induction xs) (auto split: outcome.splits)

lemma collect_skip:
  assumes "\<And>r. f s \<noteq> Produced r"
  shows "collect f (xs @ s # ys) = collect f (xs @ ys)"
  using assms by (cases "f s") (auto simp: collect_append)

lemma symbol_row_short:
  "fetch (fst sn) (start_10y w) = Inr df \<Longrightarrow> length df < 2 \<Longrightarrow>
   symbol_row fetch end_date w sn = Skipped"
  by (simp add: symbol_row_def)

lemma symbol_trace_short:
  "fetch (fst sn) start = Inr df \<Longrightarrow> length df < 2 \<Longrightarrow> symbol_trace fetch start sn = Skipped"
  by (simp add: symbol_trace_def)

section \<open>Normalisation of a chart trace\<close>



section \<open>A request on a leap day\<close>

lemma sub_days_5_late:
  "5 < day dt \<Longrightarrow> sub_days dt 5 = Inr (dt\<lparr>day := day dt - 5\<rparr>)"
  by (simp add: eval_nat_numeral prev_day_def)

lemma leap_mod4: "is_leap y \<Longrightarrow> y mod 4 = 0"
  by (simp add: is_leap_def)

lemma mod4_minus_5: "(y::int) mod 4 = 0 \<Longrightarrow> (y - 5) mod 4 \<noteq> 0"
  by presburger

lemma leap_minus_5: "is_leap y \<Longrightarrow> \<not> is_leap (y - 5)"
  using mod4_minus_5 [of y] leap_mod4 [of y] leap_mod4 [of "y - 5"] by blast

lemma feb29_leap: "valid_date y 2 29 \<Longrightarrow> is_leap y"
  by (auto simp: valid_date_def days_in_month_def DAYS_IN_MONTH_def split: if_splits)

lemma feb29_no_5y:
  assumes "valid_date y 2 29"
  shows "mk_datetime (y - 5) 2 29 = Inl ValueError"
proof -
  have "\<not> is_leap (y - 5)" using assms by (intro leap_minus_5 feb29_leap)
  then have "days_in_month (y - 5) 2 = 28" by (simp add: days_in_month_def DAYS_IN_MONTH_def)
  then have "\<not> valid_date (y - 5) 2 29" by (simp add: valid_date_def)
  then show ?thesis by (simp add: mk_datetime_def)
qed

text \<open>
  C10. When \<^verbatim>\<open>datetime.now()\<close> falls on February 29, the 5y window start
  \<^verbatim>\<open>datetime(now.year - 5, 2, 29)\<close> does not exist; the constructor raises before the
  loop over the basket, so every table and chart request ends in \<^verbatim>\<open>ValueError\<close>,
  whatever the basket, the provider and the period asked for.
\<close>

theorem C10_leap_day_fails_whole_request:
  assumes "valid_datetime end_date" and "month end_date = 2" and "day end_date = 29"
  shows "get_table symbols fetch end_date = Inl ValueError
       \<and> get_performance symbols' fetch end_date q = Inl ValueError"
proof -
  have v: "valid_date (year end_date) 2 29" using assms by (simp add: valid_datetime_def)
  have y: "1 \<le> year end_date" "year end_date \<le> 9999" using v by (simp_all add: valid_date_def)
  have a: "mk_datetime (year end_date) 1 1
         = Inr \<lparr>year = year end_date, month = 1, day = 1, tod = 0\<rparr>"
    using y by (simp add: mk_datetime_def valid_date_def days_in_month_def DAYS_IN_MONTH_def)
  have b: "mk_datetime (year end_date) 2 1
         = Inr \<lparr>year = year end_date, month = 2, day = 1, tod = 0\<rparr>"
    using y by (simp add: mk_datetime_def valid_date_def days_in_month_def DAYS_IN_MONTH_def)
  have c: "sub_days end_date 5 = Inr (end_date\<lparr>day := day end_date - 5\<rparr>)"
    using assms by (simp add: sub_days_5_late)
  have d: "mk_datetime (year end_date - 5) 2 29 = Inl ValueError" using v by (rule feb29_no_5y)
  have "table_windows end_date = Inl ValueError"
    using assms a b c d by (simp add: table_windows_def)
  moreover have "time_periods end_date = Inl ValueError"
    using assms a b c d by (simp add: time_periods_def)
  ultimately show ?thesis
    by (simp add: get_table_def get_performance_def chart_start_def)
qed

theorem C10_witness:
  "valid_datetime \<lparr>year = 2024, month = 2, day = 29, tod = 43200000000\<rparr>
   \<and> get_equities_table (\<lambda>s d. Inl UpstreamError)
        \<lparr>year = 2024, month = 2, day = 29, tod = 43200000000\<rparr> = Inl ValueError
   \<and> get_equity_performance (\<lambda>s d. Inl UpstreamError)
        \<lparr>year = 2024, month = 2, day = 29, tod = 43200000000\<rparr> (Some ''ytd'') = Inl ValueError"
proof -
  let ?now = "\<lparr>year = 2024, month = 2, day = 29, tod = 43200000000\<rparr>"
  have v: "valid_datetime ?now"
    by (simp add: valid_datetime_def valid_date_def days_in_month_def is_leap_def
        usec_per_day_def)
  have m: "month ?now = 2" and d: "day ?now = 29" by simp_all
  note r = C10_leap_day_fails_whole_request [OF v m d]
  show ?thesis
    unfolding get_equities_table_def get_equity_performance_def
    by (intro conjI v r [THEN conjunct1] r [THEN conjunct2])
qed

section \<open>The period parameter of a chart\<close>


lemma time_periods_of_table_windows:
  assumes "table_windows end_date = Inr w"
  shows "time_periods end_date =
     Inr [(''5d'', start_5d w), (''mtd'', start_mtd w), (''ytd'', start_ytd w),
          (''5y'', start_5y w), (''10y'', start_10y w)]"
  using assms unfolding table_windows_def time_periods_def
  by (auto split: sum.splits)

lemma chart_start_of_table_windows:
  assumes "table_windows end_date = Inr w"
  shows "chart_start end_date s =
     Inr (if lower s = ''5d'' then start_5d w
          else if lower s = ''mtd'' then start_mtd w
          else if lower s = ''ytd'' then start_ytd w
          else if lower s = ''5y'' then start_5y w
          else if lower s = ''10y'' then start_10y w
          else start_ytd w)"
  unfolding chart_start_def time_periods_of_table_windows [OF assms]
  by (simp add: dict_item_def dict_get_def)

lemma lower_ytd: "lower ''ytd'' = ''ytd''"
  by (simp add: lower_def lower_char_def)

lemma table_windows_of_time_periods:
  assumes "time_periods end_date = Inr tp"
  shows "\<exists>w. table_windows end_date = Inr w"
  using assms unfolding table_windows_def time_periods_def
  by (auto split: sum.splits)

lemma chart_start_default:
  assumes "lower s \<notin> set period_tokens"
  shows "chart_start end_date s = chart_start end_date ''ytd''"
proof (cases "time_periods end_date")
  case (Inl e)
  then show ?thesis by (simp add: chart_start_def)
next
  case (Inr tp)
  then obtain w where w: "table_windows end_date = Inr w"
    using table_windows_of_time_periods by blast
  have "chart_start end_date s = Inr (start_ytd w)"
    using assms by (simp add: chart_start_of_table_windows [OF w] period_tokens_def)
  moreover have "chart_start end_date ''ytd'' = Inr (start_ytd w)"
    by (simp add: chart_start_of_table_windows [OF w] lower_ytd)
  ultimately show ?thesis by simp
qed

lemma table_windows_example: "table_windows \<lparr>year = 2024, month = 3, day = 15, tod = 52200000000\<rparr> =
   Inr \<lparr>start_ytd = \<lparr>year = 2024, month = 1, day = 1, tod = 0\<rparr>,
        start_mtd = \<lparr>year = 2024, month = 3, day = 1, tod = 0\<rparr>,
        start_5d = \<lparr>year = 2024, month = 3, day = 10, tod = 52200000000\<rparr>,
        start_5y = \<lparr>year = 2019, month = 3, day = 15, tod = 0\<rparr>,
        start_10y = \<lparr>year = 2014, month = 3, day = 15, tod = 0\<rparr>\<rparr>"
  by (simp add: table_windows_def mk_datetime_def valid_date_def days_in_month_def is_leap_def
      DAYS_IN_MONTH_def eval_nat_numeral prev_day_def)


text \<open>
  Whenever the five window starts exist, a chart endpoint plots, for every symbol, the
  frame fetched from the start of the token its lower-cased parameter names, and from the
  \<^verbatim>\<open>ytd\<close> start for every other string and for an absent parameter.
\<close>

lemma chart_period_tokens:
  assumes "table_windows end_date = Inr w"
  shows "chart_start end_date s =
           Inr (if lower s = ''5d'' then start_5d w
                else if lower s = ''mtd'' then start_mtd w
                else if lower s = ''ytd'' then start_ytd w
                else if lower s = ''5y'' then start_5y w
                else if lower s = ''10y'' then start_10y w
                else start_ytd w)"
    and "get_performance symbols fetch end_date (Some s) =
           Inr (collect (symbol_trace fetch
                  (if lower s = ''5d'' then start_5d w
                   else if lower s = ''mtd'' then start_mtd w
                   else if lower s = ''ytd'' then start_ytd w
                   else if lower s = ''5y'' then start_5y w
                   else if lower s = ''10y'' then start_10y w
                   else start_ytd w)) symbols)"
    and "get_performance symbols fetch end_date None =
           Inr (collect (symbol_trace fetch (start_ytd w)) symbols)"
  using chart_start_of_table_windows [OF assms, of s]
    chart_start_of_table_windows [OF assms, of "''ytd''"]
  by (simp_all add: get_performance_def start_date_param_def lower_ytd)

section \<open>Calendar arithmetic\<close>

lemma div_pred:
  fixes a k :: int
  assumes "0 < k"
  shows "a div k = (a - 1) div k + (if a mod k = 0 then 1 else 0)"
proof (cases "a mod k = 0")
  case True
  have "a - 1 = k * (a div k - 1) + (k - 1)"
    using True by (simp add: algebra_simps) (metis mult_div_mod_eq add.right_neutral)
  then have "(a - 1) div k = a div k - 1"
    using assms by (intro int_div_pos_eq [where r = "k - 1"]) simp_all
  with True show ?thesis by simp
next
  case False
  have r: "0 < a mod k" "a mod k < k"
    using assms False pos_mod_sign [of k a] pos_mod_bound [of k a] by linarith+
  have "a - 1 = k * (a div k) + (a mod k - 1)" by simp
  then have "(a - 1) div k = a div k"
    using r by (intro int_div_pos_eq [where r = "a mod k - 1"]) simp_all
  with False show ?thesis by simp
qed


lemma div_shift_bounds:
  fixes a n k :: int
  assumes "0 < k" and "0 \<le> n"
  shows "n div k \<le> a div k - (a - n) div k" and "a div k - (a - n) div k \<le> n div k + 1"
proof -
  define q1 where "q1 = a div k"
  define q2 where "q2 = (a - n) div k"
  define q3 where "q3 = n div k"
  have e1: "a = k * q1 + a mod k" and e2: "a - n = k * q2 + (a - n) mod k"
    and e3: "n = k * q3 + n mod k"
    by (simp_all add: q1_def q2_def q3_def)
  have b: "0 \<le> a mod k" "a mod k < k" "0 \<le> (a - n) mod k" "(a - n) mod k < k"
    "0 \<le> n mod k" "n mod k < k"
    using assms by simp_all
  have "k * (q1 - q2 - q3) = (a - n) mod k + n mod k - a mod k"
    using e1 e2 e3 by (simp add: algebra_simps)
  then have lo: "- k < k * (q1 - q2 - q3)" and hi: "k * (q1 - q2 - q3) < 2 * k"
    using b by linarith+
  have "- 1 < q1 - q2 - q3"
  proof (rule ccontr)
    assume "\<not> - 1 < q1 - q2 - q3"
    then have "q1 - q2 - q3 \<le> - 1" by simp
    then have "k * (q1 - q2 - q3) \<le> k * (- 1)"
      using assms(1) by (intro mult_left_mono) simp_all
    with lo show False by simp
  qed
  moreover have "q1 - q2 - q3 < 2"
  proof (rule ccontr)
    assume "\<not> q1 - q2 - q3 < 2"
    then have "2 \<le> q1 - q2 - q3" by simp
    then have "k * 2 \<le> k * (q1 - q2 - q3)"
      using assms(1) by (intro mult_left_mono) simp_all
    with hi show False by simp
  qed
  ultimately have "- 1 < q1 - q2 - q3" "q1 - q2 - q3 < 2" by simp_all
  then show "n div k \<le> a div k - (a - n) div k" and "a div k - (a - n) div k \<le> n div k + 1"
    by (simp_all add: q1_def q2_def q3_def)
qed

lemma year_shift_linear:
  fixes A A' B B' C C' n p x :: int
  assumes "p \<le> A - A'" and "A - A' \<le> p + 1" and "0 \<le> B - B'" and "B - B' \<le> 1"
    and "0 \<le> C - C'" and "C - C' \<le> 1" and "1 \<le> p" and "p \<le> 2"
  shows "365 * n \<le> (x * 365 + A - B + C) - ((x - n) * 365 + A' - B' + C')"
    and "(x * 365 + A - B + C) - ((x - n) * 365 + A' - B' + C') \<le> 365 * n + 4"
  using assms by (simp_all add: left_diff_distrib)

lemma days_before_year_shift:
  assumes "n = 5 \<or> n = 10"
  shows "365 * n \<le> days_before_year y - days_before_year (y - n)"
    and "days_before_year y - days_before_year (y - n) \<le> 365 * n + 4"
proof -
  have s: "y - n - 1 = y - 1 - n" by simp
  have n0: "0 \<le> n" using assms by auto
  have d: "1 \<le> n div 4" "n div 4 \<le> 2" "n div 100 = 0" "n div 400 = 0"
    using assms by auto
  have a: "n div 4 \<le> (y - 1) div 4 - (y - 1 - n) div 4"
    "(y - 1) div 4 - (y - 1 - n) div 4 \<le> n div 4 + 1"
    using div_shift_bounds [of 4 n "y - 1"] n0 by simp_all
  have b: "0 \<le> (y - 1) div 100 - (y - 1 - n) div 100"
    "(y - 1) div 100 - (y - 1 - n) div 100 \<le> 1"
    using div_shift_bounds [of 100 n "y - 1"] n0 d(3) by simp_all
  have c: "0 \<le> (y - 1) div 400 - (y - 1 - n) div 400"
    "(y - 1) div 400 - (y - 1 - n) div 400 \<le> 1"
    using div_shift_bounds [of 400 n "y - 1"] n0 d(4) by simp_all
  show "365 * n \<le> days_before_year y - days_before_year (y - n)"
    unfolding days_before_year_def s
    by (rule year_shift_linear(1) [OF a b c d(1,2)])
  show "days_before_year y - days_before_year (y - n) \<le> 365 * n + 4"
    unfolding days_before_year_def s
    by (rule year_shift_linear(2) [OF a b c d(1,2)])
qed

lemma days_before_month_shift:
  "days_before_month y m - days_before_month y' m \<le> 1"
  "- 1 \<le> days_before_month y m - days_before_month y' m"
  by (simp_all add: days_before_month_def)

lemma ymd2ord_shift:
  assumes "n = 5 \<or> n = 10"
  shows "365 * n - 1 \<le> ymd2ord y m d - ymd2ord (y - n) m d"
    and "ymd2ord y m d - ymd2ord (y - n) m d \<le> 365 * n + 5"
  using days_before_year_shift [OF assms, of y] days_before_month_shift [of y m "y - n"]
  unfolding ymd2ord_def by linarith+

lemma tod_div_day:
  assumes "0 \<le> t" and "t < usec_per_day"
  shows "(t - 0) div usec_per_day = 0"
  using assms by (simp add: usec_per_day_def)

lemma delta_days_window:
  assumes "valid_datetime end_date" and "n = 5 \<or> n = 10"
    and "mk_datetime (year end_date - n) (month end_date) (day end_date) = Inr start"
  shows "365 * n - 1 \<le> delta_days end_date start" and "delta_days end_date start \<le> 365 * n + 5"
proof -
  have st: "start = \<lparr>year = year end_date - n, month = month end_date, day = day end_date, tod = 0\<rparr>"
    using assms(3) by (simp add: mk_datetime_def split: if_splits)
  have t: "(tod end_date - tod start) div usec_per_day = 0"
    using assms(1) tod_div_day [of "tod end_date"] by (simp add: st valid_datetime_def)
  have o: "toordinal end_date - toordinal start
         = ymd2ord (year end_date) (month end_date) (day end_date)
           - ymd2ord (year end_date - n) (month end_date) (day end_date)"
    by (simp add: toordinal_def st)
  show "365 * n - 1 \<le> delta_days end_date start"
    unfolding delta_days_def t o using ymd2ord_shift(1) [OF assms(2)] by simp
  show "delta_days end_date start \<le> 365 * n + 5"
    unfolding delta_days_def t o using ymd2ord_shift(2) [OF assms(2)] by simp
qed

lemma days_before_month_step:
  assumes "2 \<le> m" and "m \<le> 12"
  shows "days_before_month y m = days_before_month y (m - 1) + days_in_month y (m - 1)"
proof -
  have "m = 2 \<or> m = 3 \<or> m = 4 \<or> m = 5 \<or> m = 6 \<or> m = 7 \<or> m = 8 \<or> m = 9 \<or> m = 10
      \<or> m = 11 \<or> m = 12"
    using assms by presburger
  then show ?thesis
    by (elim disjE)
      (simp_all add: days_before_month_def days_in_month_def DAYS_BEFORE_MONTH_def
        DAYS_IN_MONTH_def)
qed

lemma days_in_month_bounds:
  assumes "1 \<le> m" and "m \<le> 12"
  shows "28 \<le> days_in_month y m" and "days_in_month y m \<le> 31"
proof -
  have "m = 1 \<or> m = 2 \<or> m = 3 \<or> m = 4 \<or> m = 5 \<or> m = 6 \<or> m = 7 \<or> m = 8 \<or> m = 9
      \<or> m = 10 \<or> m = 11 \<or> m = 12"
    using assms by presburger
  then show "28 \<le> days_in_month y m" and "days_in_month y m \<le> 31"
    by (elim disjE; simp add: days_in_month_def DAYS_IN_MONTH_def)+
qed

lemma leap_indicators:
  fixes a :: int
  shows "a mod 400 = 0 \<Longrightarrow> a mod 100 = 0" and "a mod 100 = 0 \<Longrightarrow> a mod 4 = 0"
proof -
  have "(100::int) dvd 400" and "(4::int) dvd 100" by simp_all
  then show "a mod 400 = 0 \<Longrightarrow> a mod 100 = 0" and "a mod 100 = 0 \<Longrightarrow> a mod 4 = 0"
    by (simp_all only: mod_eq_0_iff_dvd) (blast intro: dvd_trans)+
qed

lemma year_step_linear:
  fixes q4 q100 q400 x :: int and b4 b100 b400 :: bool
  assumes "b400 \<Longrightarrow> b100" and "b100 \<Longrightarrow> b4"
  shows "x + 365 + (q4 + (if b4 then 1 else 0)) - (q100 + (if b100 then 1 else 0))
           + (q400 + (if b400 then 1 else 0))
       = x + q4 - q100 + q400 + (if b4 \<and> (\<not> b100 \<or> b400) then 366 else 365)"
  using assms by (cases b4; cases b100; cases b400; simp)

lemma days_before_year_step:
  "days_before_year y = days_before_year (y - 1) + (if is_leap (y - 1) then 366 else 365)"
proof -
  have e4: "(y - 1) div 4 = (y - 1 - 1) div 4 + (if (y - 1) mod 4 = 0 then 1 else 0)"
    by (rule div_pred) simp
  have e100: "(y - 1) div 100 = (y - 1 - 1) div 100 + (if (y - 1) mod 100 = 0 then 1 else 0)"
    by (rule div_pred) simp
  have e400: "(y - 1) div 400 = (y - 1 - 1) div 400 + (if (y - 1) mod 400 = 0 then 1 else 0)"
    by (rule div_pred) simp
  have s: "(y - 1) * 365 = (y - 1 - 1) * 365 + 365" by (simp add: left_diff_distrib)
  show ?thesis
    unfolding days_before_year_def is_leap_def e4 e100 e400 s
    by (rule year_step_linear [OF leap_indicators])
qed
lemma prev_day_ordinal:
  assumes v: "valid_datetime dt" and n1: "\<not> (year dt = 1 \<and> month dt = 1 \<and> day dt = 1)"
  shows "toordinal (prev_day dt) = toordinal dt - 1"
    and "valid_datetime (prev_day dt)"
    and "tod (prev_day dt) = tod dt"
    and "year dt - 1 \<le> year (prev_day dt)"
proof -
  have y: "1 \<le> year dt" "year dt \<le> 9999" and m: "1 \<le> month dt" "month dt \<le> 12"
    and d: "1 \<le> day dt" "day dt \<le> days_in_month (year dt) (month dt)"
    and t: "0 \<le> tod dt" "tod dt < usec_per_day"
    using v by (simp_all add: valid_datetime_def valid_date_def)
  consider (a) "1 < day dt" | (b) "day dt = 1" "1 < month dt"
    | (c) "day dt = 1" "month dt = 1" "1 < year dt"
    using y m d n1 by linarith
  then have "toordinal (prev_day dt) = toordinal dt - 1 \<and> valid_datetime (prev_day dt)
      \<and> tod (prev_day dt) = tod dt \<and> year dt - 1 \<le> year (prev_day dt)"
  proof cases
    case a
    then show ?thesis
      using y m d t
      by (simp add: prev_day_def toordinal_def ymd2ord_def valid_datetime_def valid_date_def)
  next
    case b
    have s: "days_before_month (year dt) (month dt)
        = days_before_month (year dt) (month dt - 1) + days_in_month (year dt) (month dt - 1)"
      using b m by (intro days_before_month_step) simp_all
    have dm: "28 \<le> days_in_month (year dt) (month dt - 1)"
      using b m by (intro days_in_month_bounds) simp_all
    show ?thesis
      using b y m t dm
      by (simp add: prev_day_def toordinal_def ymd2ord_def valid_datetime_def valid_date_def s)
  next
    case c
    have s: "days_before_year (year dt)
        = days_before_year (year dt - 1) + (if is_leap (year dt - 1) then 366 else 365)"
      by (rule days_before_year_step)
    have m12: "days_before_month (year dt - 1) 12 = (if is_leap (year dt - 1) then 335 else 334)"
      by (simp add: days_before_month_def DAYS_BEFORE_MONTH_def)
    have m1: "days_before_month (year dt) 1 = 0"
      by (simp add: days_before_month_def DAYS_BEFORE_MONTH_def)
    have d12: "days_in_month (year dt - 1) 12 = 31"
      by (simp add: days_in_month_def DAYS_IN_MONTH_def)
    show ?thesis
      using c y t
      by (simp add: prev_day_def toordinal_def ymd2ord_def valid_datetime_def valid_date_def
          s m12 m1 d12)
  qed
  then show "toordinal (prev_day dt) = toordinal dt - 1"
    and "valid_datetime (prev_day dt)"
    and "tod (prev_day dt) = tod dt"
    and "year dt - 1 \<le> year (prev_day dt)"
    by simp_all
qed

lemma sub_days_ordinal:
  assumes "valid_datetime dt" and "int n < year dt"
  shows "\<exists>dt'. sub_days dt n = Inr dt' \<and> toordinal dt' = toordinal dt - int n
           \<and> valid_datetime dt' \<and> tod dt' = tod dt"
  using assms
proof (induction n arbitrary: dt)
  case 0
  then show ?case by simp
next
  case (Suc n)
  from Suc.prems(2) have n1: "\<not> (year dt = 1 \<and> month dt = 1 \<and> day dt = 1)" by simp
  note p = prev_day_ordinal [OF Suc.prems(1) n1]
  have "int n < year (prev_day dt)" using p(4) Suc.prems(2) by simp
  from Suc.IH [OF p(2) this] obtain dt' where
    "sub_days (prev_day dt) n = Inr dt'" "toordinal dt' = toordinal (prev_day dt) - int n"
    "valid_datetime dt'" "tod dt' = tod (prev_day dt)"
    by blast
  then show ?case using n1 p(1,3) by simp
qed


lemma valid_date_shift:
  assumes "valid_date y m d" and "\<not> (m = 2 \<and> d = 29)" and "1 \<le> y'" and "y' \<le> 9999"
  shows "valid_date y' m d"
proof (cases "m = 2")
  case True
  have "days_in_month y 2 \<le> 29" and "28 \<le> days_in_month y' 2"
    by (simp_all add: days_in_month_def DAYS_IN_MONTH_def)
  then show ?thesis using assms True by (simp add: valid_date_def)
next
  case False
  then have "days_in_month y' m = days_in_month y m" by (simp add: days_in_month_def)
  then show ?thesis using assms by (simp add: valid_date_def)
qed



lemma mk_first_of_month:
  assumes "1 \<le> y" and "y \<le> 9999" and "1 \<le> m" and "m \<le> 12"
  shows "mk_datetime y m 1 = Inr \<lparr>year = y, month = m, day = 1, tod = 0\<rparr>"
proof -
  have "28 \<le> days_in_month y m" using assms(3,4) by (rule days_in_month_bounds)
  then have "valid_date y m 1" using assms by (simp add: valid_date_def)
  then show ?thesis by (simp add: mk_datetime_def)
qed

lemma mk_years_back:
  assumes "valid_datetime end_date" and "\<not> (month end_date = 2 \<and> day end_date = 29)"
    and "n < year end_date" and "0 \<le> n"
  shows "mk_datetime (year end_date - n) (month end_date) (day end_date)
      = Inr \<lparr>year = year end_date - n, month = month end_date, day = day end_date, tod = 0\<rparr>"
proof -
  have vd: "valid_date (year end_date) (month end_date) (day end_date)"
    using assms(1) by (simp add: valid_datetime_def)
  then have y: "year end_date \<le> 9999" by (simp add: valid_date_def)
  have lo: "1 \<le> year end_date - n" using assms(3) by simp
  have hi: "year end_date - n \<le> 9999" using y assms(4) by simp
  have "valid_date (year end_date - n) (month end_date) (day end_date)"
    by (rule valid_date_shift [OF vd assms(2) lo hi])
  then show ?thesis by (simp add: mk_datetime_def)
qed



lemma table_windows_eq:
  assumes "mk_datetime (year end_date) 1 1 = Inr ytd"
    and "mk_datetime (year end_date) (month end_date) 1 = Inr mtd"
    and "sub_days end_date 5 = Inr d5"
    and "mk_datetime (year end_date - 5) (month end_date) (day end_date) = Inr y5"
    and "mk_datetime (year end_date - 10) (month end_date) (day end_date) = Inr y10"
  shows "table_windows end_date =
      Inr \<lparr>start_ytd = ytd, start_mtd = mtd, start_5d = d5, start_5y = y5, start_10y = y10\<rparr>"
    and "time_periods end_date =
      Inr [(''5d'', d5), (''mtd'', mtd), (''ytd'', ytd), (''5y'', y5), (''10y'', y10)]"
  unfolding table_windows_def time_periods_def assms by simp_all

section \<open>The five window starts\<close>

text \<open>
  For a reference date other than a February 29, in a year from 11 on, the five window
  starts exist and are: for \<^verbatim>\<open>5d\<close> the instant five calendar days before now (same time
  of day, ordinal smaller by 5), for \<^verbatim>\<open>mtd\<close> midnight of the first day of now's month,
  for \<^verbatim>\<open>ytd\<close> midnight of January 1 of now's year, for \<^verbatim>\<open>5y\<close> and \<^verbatim>\<open>10y\<close>
  midnight of the same month and day five and ten years earlier. The table endpoints and
  the dictionary of the chart endpoints hold the same five values.
\<close>

lemma window_starts_off_leap_day:
  assumes "valid_datetime end_date"
    and "\<not> (month end_date = 2 \<and> day end_date = 29)"
    and "11 \<le> year end_date"
  shows "\<exists>d5. toordinal d5 = toordinal end_date - 5 \<and> tod d5 = tod end_date
          \<and> valid_datetime d5
          \<and> table_windows end_date =
              Inr \<lparr>start_ytd = \<lparr>year = year end_date, month = 1, day = 1, tod = 0\<rparr>,
                   start_mtd = \<lparr>year = year end_date, month = month end_date, day = 1, tod = 0\<rparr>,
                   start_5d = d5,
                   start_5y = \<lparr>year = year end_date - 5, month = month end_date,
                               day = day end_date, tod = 0\<rparr>,
                   start_10y = \<lparr>year = year end_date - 10, month = month end_date,
                                day = day end_date, tod = 0\<rparr>\<rparr>
          \<and> time_periods end_date =
              Inr [(''5d'', d5),
                   (''mtd'', \<lparr>year = year end_date, month = month end_date, day = 1, tod = 0\<rparr>),
                   (''ytd'', \<lparr>year = year end_date, month = 1, day = 1, tod = 0\<rparr>),
                   (''5y'', \<lparr>year = year end_date - 5, month = month end_date,
                              day = day end_date, tod = 0\<rparr>),
                   (''10y'', \<lparr>year = year end_date - 10, month = month end_date,
                               day = day end_date, tod = 0\<rparr>)]"
proof -
  have vd: "valid_date (year end_date) (month end_date) (day end_date)"
    using assms(1) by (simp add: valid_datetime_def)
  then have y: "1 \<le> year end_date" "year end_date \<le> 9999"
    and m: "1 \<le> month end_date" "month end_date \<le> 12"
    by (simp_all add: valid_date_def)
  have j: "(1::int) \<le> 1" "(1::int) \<le> 12" by simp_all
  note ytd = mk_first_of_month [OF y j]
  note mtd = mk_first_of_month [OF y m]
  have n5: "5 < year end_date" "(0::int) \<le> 5" and n10: "10 < year end_date" "(0::int) \<le> 10"
    using assms(3) by simp_all
  note y5 = mk_years_back [OF assms(1,2) n5]
  note y10 = mk_years_back [OF assms(1,2) n10]
  have "int 5 < year end_date" using assms(3) by simp
  from sub_days_ordinal [OF assms(1) this] obtain d5 where
    d5: "sub_days end_date 5 = Inr d5" "toordinal d5 = toordinal end_date - 5"
      "valid_datetime d5" "tod d5 = tod end_date"
    by auto
  note w = table_windows_eq [OF ytd mtd d5(1) y5 y10]
  show ?thesis
    by (intro exI [of _ d5] conjI d5(2,3,4) w)
qed

lemma window_starts_example:
  "valid_datetime \<lparr>year = 2024, month = 3, day = 15, tod = 52200000000\<rparr>
   \<and> (\<exists>d5. toordinal d5 = toordinal \<lparr>year = 2024, month = 3, day = 15, tod = 52200000000\<rparr> - 5
          \<and> tod d5 = 52200000000
          \<and> table_windows \<lparr>year = 2024, month = 3, day = 15, tod = 52200000000\<rparr> =
              Inr \<lparr>start_ytd = \<lparr>year = 2024, month = 1, day = 1, tod = 0\<rparr>,
                   start_mtd = \<lparr>year = 2024, month = 3, day = 1, tod = 0\<rparr>,
                   start_5d = d5,
                   start_5y = \<lparr>year = 2019, month = 3, day = 15, tod = 0\<rparr>,
                   start_10y = \<lparr>year = 2014, month = 3, day = 15, tod = 0\<rparr>\<rparr>)"
proof -
  let ?now = "\<lparr>year = 2024, month = 3, day = 15, tod = 52200000000\<rparr>"
  have v: "valid_datetime ?now"
    by (simp add: valid_datetime_def valid_date_def days_in_month_def DAYS_IN_MONTH_def
        usec_per_day_def)
  have h2: "\<not> (month ?now = 2 \<and> day ?now = 29)" and h3: "11 \<le> year ?now" by simp_all
  from window_starts_off_leap_day [OF v h2 h3] obtain d5 where
    "toordinal d5 = toordinal ?now - 5" "tod d5 = tod ?now"
    "table_windows ?now =
       Inr \<lparr>start_ytd = \<lparr>year = year ?now, month = 1, day = 1, tod = 0\<rparr>,
            start_mtd = \<lparr>year = year ?now, month = month ?now, day = 1, tod = 0\<rparr>,
            start_5d = d5,
            start_5y = \<lparr>year = year ?now - 5, month = month ?now, day = day ?now, tod = 0\<rparr>,
            start_10y = \<lparr>year = year ?now - 10, month = month ?now, day = day ?now, tod = 0\<rparr>\<rparr>"
    by blast
  then have "toordinal d5 = toordinal ?now - 5 \<and> tod d5 = 52200000000
      \<and> table_windows ?now =
          Inr \<lparr>start_ytd = \<lparr>year = 2024, month = 1, day = 1, tod = 0\<rparr>,
               start_mtd = \<lparr>year = 2024, month = 3, day = 1, tod = 0\<rparr>,
               start_5d = d5,
               start_5y = \<lparr>year = 2019, month = 3, day = 15, tod = 0\<rparr>,
               start_10y = \<lparr>year = 2014, month = 3, day = 15, tod = 0\<rparr>\<rparr>"
    by simp
  then show ?thesis using v by blast
qed

section \<open>The row of one symbol\<close>

lemma filter_first:
  assumes "df = pre @ x # post" and "\<forall>q\<in>set pre. \<not> P q" and "P x"
  shows "filter P df = x # filter P post"
  using assms by simp

lemma filter_none:
  assumes "\<forall>q\<in>set df. \<not> P q"
  shows "filter P df = []"
  using assms by simp

lemma filter_label_unique:
  assumes "distinct (map fst df)" and "(t, c) \<in> set df"
  shows "filter (\<lambda>p. fst p = t) df = [(t, c)]"
  using assms
proof (induction df)
  case Nil
  then show ?case by simp
next
  case (Cons a df)
  show ?case
  proof (cases "a = (t, c)")
    case True
    with Cons.prems have "\<forall>p\<in>set df. fst p \<noteq> t" by force
    then have "filter (\<lambda>p. fst p = t) df = []" by simp
    with True show ?thesis by simp
  next
    case False
    with Cons.prems have in_df: "(t, c) \<in> set df" by simp
    then have "t \<in> fst ` set df" by force
    with Cons.prems have "fst a \<noteq> t" by auto
    moreover have "filter (\<lambda>p. fst p = t) df = [(t, c)]"
      using Cons.IH Cons.prems in_df by simp
    ultimately show ?thesis by simp
  qed
qed


lemma loc_close_unique:
  assumes "distinct (map fst df)" and "(t, c) \<in> set df"
  shows "loc_close df t = Scalar c"
  by (simp add: loc_close_def filter_label_unique [OF assms])



lemma window_change_scalar:
  assumes "distinct (map fst df)"
  shows "\<exists>v. window_change df start = Scalar v"
proof (cases "filter (\<lambda>p. dt_le start (fst p)) df")
  case Nil
  then show ?thesis by (simp add: window_change_def)
next
  case (Cons p ps)
  have "p \<in> set (filter (\<lambda>p. dt_le start (fst p)) df)" by (simp add: Cons)
  then have "p \<in> set df" by simp
  then have "loc_close df (fst p) = Scalar (snd p)"
    using assms loc_close_unique [of df "fst p" "snd p"] by simp
  then show ?thesis by (simp add: window_change_def Cons)
qed



lemma window_cagr_total:
  assumes "elapsed_years end_date start \<noteq> 0"
  shows "\<exists>v. window_cagr df end_date start latest_price = Inr v"
  using assms by (simp add: window_cagr_def Let_def split: list.splits)


lemma table_windows_parts:
  assumes "table_windows end_date = Inr w"
  shows "mk_datetime (year end_date - 5) (month end_date) (day end_date) = Inr (start_5y w)"
    and "mk_datetime (year end_date - 10) (month end_date) (day end_date) = Inr (start_10y w)"
  using assms unfolding table_windows_def by (auto split: sum.splits)

lemma elapsed_years_bounds:
  assumes "lo \<le> delta_days end_date start" and "delta_days end_date start \<le> hi"
  shows "real_of_int lo * 4 / 1461 \<le> elapsed_years end_date start"
    and "elapsed_years end_date start \<le> real_of_int hi * 4 / 1461"
  using assms by (simp_all add: elapsed_years_def divide_right_mono)

lemma elapsed_years_window:
  assumes "valid_datetime end_date" and "table_windows end_date = Inr w"
  shows "7296 / 1461 \<le> elapsed_years end_date (start_5y w)"
    and "elapsed_years end_date (start_5y w) \<le> 7320 / 1461"
    and "14596 / 1461 \<le> elapsed_years end_date (start_10y w)"
    and "elapsed_years end_date (start_10y w) \<le> 14620 / 1461"
proof -
  have n5: "(5::int) = 5 \<or> (5::int) = 10" and n10: "(10::int) = 5 \<or> (10::int) = 10" by simp_all
  note p = table_windows_parts [OF assms(2)]
  have d5: "1824 \<le> delta_days end_date (start_5y w)" "delta_days end_date (start_5y w) \<le> 1830"
    using delta_days_window [OF assms(1) n5 p(1)] by simp_all
  have d10: "3649 \<le> delta_days end_date (start_10y w)"
    "delta_days end_date (start_10y w) \<le> 3655"
    using delta_days_window [OF assms(1) n10 p(2)] by simp_all
  show "7296 / 1461 \<le> elapsed_years end_date (start_5y w)"
    using elapsed_years_bounds(1) [OF d5] by simp
  show "elapsed_years end_date (start_5y w) \<le> 7320 / 1461"
    using elapsed_years_bounds(2) [OF d5] by simp
  show "14596 / 1461 \<le> elapsed_years end_date (start_10y w)"
    using elapsed_years_bounds(1) [OF d10] by simp
  show "elapsed_years end_date (start_10y w) \<le> 14620 / 1461"
    using elapsed_years_bounds(2) [OF d10] by simp
qed

lemma elapsed_years_nonzero:
  assumes "valid_datetime end_date" and "table_windows end_date = Inr w"
  shows "1 < elapsed_years end_date (start_5y w)" and "1 < elapsed_years end_date (start_10y w)"
  using elapsed_years_window(1,3) [OF assms] by simp_all

lemma symbol_row_produced:
  assumes "valid_datetime end_date" and "table_windows end_date = Inr w"
    and "fetch (fst sn) (start_10y w) = Inr df" and "2 \<le> length df"
    and "distinct (map fst df)"
  shows "\<exists>v1 v2 v3 c5 c10.
      window_change df (start_5d w) = Scalar v1
    \<and> window_change df (start_mtd w) = Scalar v2
    \<and> window_change df (start_ytd w) = Scalar v3
    \<and> window_cagr df end_date (start_5y w) (fround 2 (snd (last df))) = Inr c5
    \<and> window_cagr df end_date (start_10y w) (fround 2 (snd (last df))) = Inr c10
    \<and> symbol_row fetch end_date w sn =
        Produced \<lparr>label = snd sn, f_5D = out_value v1, f_MTD = out_value v2,
                  f_YTD = out_value v3, f_5Y_CAGR = out_value c5, f_10Y_CAGR = out_value c10,
                  f_Value = fround 1 (fround 2 (snd (last df)))\<rparr>"
proof -
  obtain v1 where v1: "window_change df (start_5d w) = Scalar v1"
    using window_change_scalar [OF assms(5)] by blast
  obtain v2 where v2: "window_change df (start_mtd w) = Scalar v2"
    using window_change_scalar [OF assms(5)] by blast
  obtain v3 where v3: "window_change df (start_ytd w) = Scalar v3"
    using window_change_scalar [OF assms(5)] by blast
  note nz = elapsed_years_nonzero [OF assms(1,2)]
  have z5: "elapsed_years end_date (start_5y w) \<noteq> 0" using nz(1) by simp
  have z10: "elapsed_years end_date (start_10y w) \<noteq> 0" using nz(2) by simp
  obtain c5 where c5: "window_cagr df end_date (start_5y w) (fround 2 (snd (last df))) = Inr c5"
    using window_cagr_total [OF z5] by blast
  obtain c10 where
    c10: "window_cagr df end_date (start_10y w) (fround 2 (snd (last df))) = Inr c10"
    using window_cagr_total [OF z10] by blast
  have ne: "\<not> (df = [] \<or> length df < 2)" using assms(4) by auto
  have "symbol_row fetch end_date w sn =
        Produced \<lparr>label = snd sn, f_5D = out_value v1, f_MTD = out_value v2,
                  f_YTD = out_value v3, f_5Y_CAGR = out_value c5, f_10Y_CAGR = out_value c10,
                  f_Value = fround 1 (fround 2 (snd (last df)))\<rparr>"
    using ne by (simp add: symbol_row_def assms(3) Let_def v1 v2 v3 c5 c10 out_field_def)
  with v1 v2 v3 c5 c10 show ?thesis by blast
qed

section \<open>The example data\<close>

lemma demo_now_valid: "valid_datetime demo_now"
  by (simp add: demo_now_def valid_datetime_def valid_date_def days_in_month_def
      DAYS_IN_MONTH_def usec_per_day_def)

lemma demo_table_windows: "table_windows demo_now = Inr demo_windows"
  using table_windows_example by (simp add: demo_now_def demo_windows_def midnight_def)

lemma pair_series_distinct: "distinct (map fst pair_series)"
  by (simp add: pair_series_def midnight_def)

lemma demo_chart_start_ytd: "chart_start demo_now (start_date_param (Some ''ytd'')) = Inr (midnight 2024 1 1)"
  using chart_start_of_table_windows [OF demo_table_windows, of "''ytd''"]
  by (simp add: lower_ytd start_date_param_def demo_windows_def)

section \<open>A symbol with too little data\<close>

text \<open>
  C7. A symbol whose fetched frame is empty or has a single point contributes nothing:
  its pass of the loop is skipped, and the response is made of the rows (for a chart: the
  traces) of the symbols before it followed by those of the symbols after it, which is
  also the response of the basket without that symbol. The frame is the one fetched at
  the start date the endpoint asks for: the 10y start for a table, the resolved start for
  a chart.
\<close>

theorem C7_short_series_contributes_nothing:
  "(\<forall>w df. table_windows end_date = Inr w \<and> fetch (fst sn) (start_10y w) = Inr df
          \<and> length df < 2 \<longrightarrow>
      symbol_row fetch end_date w sn = Skipped
    \<and> get_table (xs @ sn # ys) fetch end_date
        = Inr (collect (symbol_row fetch end_date w) xs @ collect (symbol_row fetch end_date w) ys)
    \<and> get_table (xs @ sn # ys) fetch end_date = get_table (xs @ ys) fetch end_date)
   \<and> (\<forall>start df. chart_start end_date (start_date_param q) = Inr start
          \<and> fetch (fst sn) start = Inr df \<and> length df < 2 \<longrightarrow>
      symbol_trace fetch start sn = Skipped
    \<and> get_performance (xs @ sn # ys) fetch end_date q
        = Inr (collect (symbol_trace fetch start) xs @ collect (symbol_trace fetch start) ys)
    \<and> get_performance (xs @ sn # ys) fetch end_date q
        = get_performance (xs @ ys) fetch end_date q)"
proof (intro conjI allI impI)
  fix w df
  assume a: "table_windows end_date = Inr w \<and> fetch (fst sn) (start_10y w) = Inr df
      \<and> length df < 2"
  then show row: "symbol_row fetch end_date w sn = Skipped"
    using symbol_row_short [of fetch sn w df end_date] by blast
  have c: "collect (symbol_row fetch end_date w) (xs @ sn # ys)
      = collect (symbol_row fetch end_date w) (xs @ ys)"
    by (rule collect_skip) (simp add: row)
  have c2: "collect (symbol_row fetch end_date w) (xs @ sn # ys)
      = collect (symbol_row fetch end_date w) xs @ collect (symbol_row fetch end_date w) ys"
    unfolding c by (rule collect_append)
  show "get_table (xs @ sn # ys) fetch end_date
      = Inr (collect (symbol_row fetch end_date w) xs @ collect (symbol_row fetch end_date w) ys)"
    using a by (simp add: get_table_def c2)
  show "get_table (xs @ sn # ys) fetch end_date = get_table (xs @ ys) fetch end_date"
    using a by (simp add: get_table_def c)
next
  fix start df
  assume a: "chart_start end_date (start_date_param q) = Inr start
      \<and> fetch (fst sn) start = Inr df \<and> length df < 2"
  then show tr: "symbol_trace fetch start sn = Skipped"
    using symbol_trace_short [of fetch sn start df] by blast
  have c: "collect (symbol_trace fetch start) (xs @ sn # ys)
      = collect (symbol_trace fetch start) (xs @ ys)"
    by (rule collect_skip) (simp add: tr)
  have c2: "collect (symbol_trace fetch start) (xs @ sn # ys)
      = collect (symbol_trace fetch start) xs @ collect (symbol_trace fetch start) ys"
    unfolding c by (rule collect_append)
  show "get_performance (xs @ sn # ys) fetch end_date q
      = Inr (collect (symbol_trace fetch start) xs @ collect (symbol_trace fetch start) ys)"
    using a by (simp add: get_performance_def c2)
  show "get_performance (xs @ sn # ys) fetch end_date q
      = get_performance (xs @ ys) fetch end_date q"
    using a by (simp add: get_performance_def c)
qed

theorem C7_witness:
  "basket_fetch ''B'' (start_10y demo_windows) = Inr short_series
   \<and> basket_fetch ''B'' (start_5y demo_windows) = Inr demo_series
   \<and> length short_series < 2
   \<and> (\<exists>ra rc. get_table [(''A'', ''a''), (''B'', ''b''), (''C'', ''c'')] basket_fetch demo_now
                  = Inr [ra, rc]
          \<and> label ra = ''a'' \<and> label rc = ''c'')
   \<and> get_performance [(''A'', ''a''), (''B'', ''b''), (''C'', ''c'')] basket_fetch demo_now
        (Some ''ytd'')
      = Inr [\<lparr>trace_name = ''a'', trace_x = [midnight 2024 3 13, midnight 2024 3 14],
               trace_y = [Fin 100, Fin 150]\<rparr>,
             \<lparr>trace_name = ''c'', trace_x = [midnight 2024 3 13, midnight 2024 3 14],
               trace_y = [Fin 100, Fin 150]\<rparr>]"
proof -
  let ?A = "(''A'', ''a'')" and ?B = "(''B'', ''b'')" and ?C = "(''C'', ''c'')"
  have fb: "basket_fetch (fst ?B) (start_10y demo_windows) = Inr short_series"
    and fb5: "basket_fetch ''B'' (start_5y demo_windows) = Inr demo_series"
    and fc: "basket_fetch (fst ?B) (midnight 2024 1 1) = Inr short_series"
    by (simp_all add: basket_fetch_def demo_windows_def midnight_def)
  have sh: "length short_series < 2" by (simp add: short_series_def)
  note t = C7_short_series_contributes_nothing
    [where fetch = basket_fetch and sn = ?B and xs = "[?A]" and ys = "[?C]"
       and end_date = demo_now and q = "Some ''ytd''"]
  have tab: "get_table ([?A] @ ?B # [?C]) basket_fetch demo_now
      = Inr (collect (symbol_row basket_fetch demo_now demo_windows) [?A]
           @ collect (symbol_row basket_fetch demo_now demo_windows) [?C])"
    using t demo_table_windows fb sh by blast
  have cha: "get_performance ([?A] @ ?B # [?C]) basket_fetch demo_now (Some ''ytd'')
      = Inr (collect (symbol_trace basket_fetch (midnight 2024 1 1)) [?A]
           @ collect (symbol_trace basket_fetch (midnight 2024 1 1)) [?C])"
    using t demo_chart_start_ytd fc sh by blast
  have fa: "basket_fetch (fst ?A) (start_10y demo_windows) = Inr pair_series"
    and fcc: "basket_fetch (fst ?C) (start_10y demo_windows) = Inr pair_series"
    by (simp_all add: basket_fetch_def)
  have len: "2 \<le> length pair_series" by (simp add: pair_series_def)
  from symbol_row_produced [where fetch = basket_fetch and sn = ?A,
      OF demo_now_valid demo_table_windows fa len pair_series_distinct]
  obtain ra where ra: "symbol_row basket_fetch demo_now demo_windows ?A = Produced ra"
    "label ra = ''a''"
    by force
  from symbol_row_produced [where fetch = basket_fetch and sn = ?C,
      OF demo_now_valid demo_table_windows fcc len pair_series_distinct]
  obtain rc where rc: "symbol_row basket_fetch demo_now demo_windows ?C = Produced rc"
    "label rc = ''c''"
    by force
  have r1: "get_table [?A, ?B, ?C] basket_fetch demo_now = Inr [ra, rc]"
    using tab ra(1) rc(1) by simp
  have r2: "get_performance [?A, ?B, ?C] basket_fetch demo_now (Some ''ytd'')
      = Inr [\<lparr>trace_name = ''a'', trace_x = [midnight 2024 3 13, midnight 2024 3 14],
               trace_y = [Fin 100, Fin 150]\<rparr>,
             \<lparr>trace_name = ''c'', trace_x = [midnight 2024 3 13, midnight 2024 3 14],
               trace_y = [Fin 100, Fin 150]\<rparr>]"
    using cha
    by (simp add: symbol_trace_def basket_fetch_def pair_series_def normalized_data_def)
  from fb fb5 sh r1 ra(2) rc(2) r2 show ?thesis by auto
qed

section \<open>The period tokens on a leap day\<close>

lemma leap_now_valid: "valid_datetime leap_now"
  by (simp add: leap_now_def valid_datetime_def valid_date_def days_in_month_def is_leap_def
      usec_per_day_def)

lemma leap_now_windows:
  "table_windows leap_now = Inl ValueError"
  "time_periods leap_now = Inl ValueError"
  by (simp_all add: leap_now_def table_windows_def time_periods_def mk_datetime_def
      valid_date_def days_in_month_def is_leap_def DAYS_IN_MONTH_def eval_nat_numeral
      prev_day_def)

lemma leap_now_first_of_month:
  "mk_datetime (year leap_now) (month leap_now) 1 = Inr (midnight 2024 2 1)"
  "mk_datetime (year leap_now) 1 1 = Inr (midnight 2024 1 1)"
  by (simp_all add: leap_now_def mk_datetime_def valid_date_def days_in_month_def
      DAYS_IN_MONTH_def midnight_def)

text \<open>
  C5. The window resolver should map \<^verbatim>\<open>mtd\<close> to the first day of now's month whatever
  the reference date. At noon of 2024-02-29 that day, 2024-02-01, exists, but the resolver
  builds all five starts together and \<^verbatim>\<open>datetime(2019, 2, 29)\<close> raises: neither the
  table endpoints nor the chart endpoints resolve any token, and the request ends in
  \<^verbatim>\<open>ValueError\<close>. (\<open>window_starts_off_leap_day\<close> above shows this mapping on
  every other date.)
\<close>

theorem C5_leap_day_resolves_no_token:
  "valid_datetime leap_now
   \<and> mk_datetime (year leap_now) (month leap_now) 1 = Inr (midnight 2024 2 1)
   \<and> table_windows leap_now = Inl ValueError
   \<and> time_periods leap_now = Inl ValueError
   \<and> chart_start leap_now ''mtd'' = Inl ValueError
   \<and> chart_start leap_now ''mtd'' \<noteq> Inr (midnight 2024 2 1)
   \<and> get_equities_table (demo_fetch demo_series) leap_now = Inl ValueError
   \<and> get_equity_performance (demo_fetch demo_series) leap_now (Some ''mtd'') = Inl ValueError"
  using leap_now_valid leap_now_windows leap_now_first_of_month
  by (simp add: chart_start_def get_equities_table_def get_table_def
      get_equity_performance_def get_performance_def start_date_param_def)

text \<open>
  C6. An unknown period string should select the \<^verbatim>\<open>ytd\<close> window and any casing of a
  token that token's window, with no error. At noon of 2024-02-29 the chart endpoint
  raises \<^verbatim>\<open>ValueError\<close> for the unknown string \<^verbatim>\<open>XYZ\<close>, for \<^verbatim>\<open>Ytd\<close> and for an
  absent parameter alike, because the dictionary of window starts cannot be built.
  (\<open>chart_period_tokens\<close> above shows the intended behaviour whenever the starts
  exist.)
\<close>

theorem C6_leap_day_parameter_error:
  "lower ''XYZ'' \<notin> set period_tokens
   \<and> lower ''Ytd'' = ''ytd''
   \<and> chart_start leap_now ''XYZ'' = Inl ValueError
   \<and> chart_start leap_now ''Ytd'' = Inl ValueError
   \<and> get_equity_performance (demo_fetch demo_series) leap_now (Some ''XYZ'') = Inl ValueError
   \<and> get_equity_performance (demo_fetch demo_series) leap_now (Some ''Ytd'') = Inl ValueError
   \<and> get_equity_performance (demo_fetch demo_series) leap_now None = Inl ValueError"
proof -
  have l: "lower ''XYZ'' = ''xyz''" "lower ''Ytd'' = ''ytd''" by code_simp+
  show ?thesis
    using leap_now_windows
    by (simp add: l period_tokens_def chart_start_def get_equity_performance_def
        get_performance_def start_date_param_def)
qed

lemma chart_period_tokens_example:
  "chart_start demo_now ''YTD'' = Inr (midnight 2024 1 1)"
  "chart_start demo_now ''Mtd'' = Inr (midnight 2024 3 1)"
  "chart_start demo_now ''5Y'' = Inr (midnight 2019 3 15)"
  "chart_start demo_now ''XYZ'' = Inr (midnight 2024 1 1)"
proof -
  have l: "lower ''YTD'' = ''ytd''" "lower ''Mtd'' = ''mtd''" "lower ''5Y'' = ''5y''"
    "lower ''XYZ'' = ''xyz''"
    by code_simp+
  show "chart_start demo_now ''YTD'' = Inr (midnight 2024 1 1)"
    "chart_start demo_now ''Mtd'' = Inr (midnight 2024 3 1)"
    "chart_start demo_now ''5Y'' = Inr (midnight 2019 3 15)"
    "chart_start demo_now ''XYZ'' = Inr (midnight 2024 1 1)"
    by (simp_all add: chart_period_tokens(1) [OF demo_table_windows] l demo_windows_def)
qed

section \<open>Trailing-window changes\<close>






lemma demo_fetch_gspc: "demo_fetch df (fst (''^GSPC'', ''S&P 500'')) start = Inr df"
  by (simp add: demo_fetch_def)





section \<open>Compound annual growth rates\<close>







lemma demo_elapsed_years:
  "elapsed_years demo_now (start_5y demo_windows) = 7308 / 1461"
  "elapsed_years demo_now (start_10y demo_windows) = 14612 / 1461"
  by (simp_all add: elapsed_years_def delta_days_def toordinal_def ymd2ord_def
      days_before_year_def days_before_month_def DAYS_BEFORE_MONTH_def is_leap_def
      demo_now_def demo_windows_def midnight_def usec_per_day_def)







section \<open>Rounding twice\<close>












section \<open>A window close of zero\<close>

lemma demo_elapsed_years_records:
  "elapsed_years demo_now \<lparr>year = 2019, month = 3, day = 15, tod = 0\<rparr> = 7308 / 1461"
  "elapsed_years demo_now \<lparr>year = 2014, month = 3, day = 15, tod = 0\<rparr> = 14612 / 1461"
  using demo_elapsed_years by (simp_all add: demo_windows_def midnight_def)

lemma zero_series_row:
  "symbol_row (demo_fetch zero_series) demo_now demo_windows (''^GSPC'', ''S&P 500'') =
     Produced \<lparr>label = ''S&P 500'', f_5D = Some (Fin 0), f_MTD = Some (Fin 0),
               f_YTD = Some (Fin 0), f_5Y_CAGR = Some PInf, f_10Y_CAGR = Some PInf,
               f_Value = Fin 100\<rparr>"
  by (simp add: symbol_row_def demo_fetch_def zero_series_def Let_def window_change_def
      window_cagr_def loc_close_def change_pct_def cagr_def out_field_def out_value_def
      demo_elapsed_years_records demo_windows_def midnight_def dt_le_def round_nd_def
      round_half_even_def)

lemma unit_exponent:
  assumes "1 < years"
  shows "1 / years \<noteq> 0" and "0 < 1 / years" and "\<not> is_integral (1 / years)"
proof -
  show p: "0 < 1 / years" and "1 / years \<noteq> 0" using assms by simp_all
  have "1 / years < 1" using assms by simp
  then have "\<lfloor>1 / years\<rfloor> = 0" using p by (intro floor_unique) simp_all
  then show "\<not> is_integral (1 / years)" using p by (simp add: is_integral_def)
qed

lemma negative_ratio_absent:
  assumes "x < 0" and "0 < a" and "1 < years"
  shows "out_value (cagr (Fin a) (Fin x) years) = None"
proof -
  have "a / x < 0" using assms(1,2) by (simp add: divide_pos_neg)
  then show ?thesis
    using assms(1,2) unit_exponent [OF assms(3)]
    by (simp add: cagr_def out_value_def)
qed

lemma zero_close_infinite:
  assumes "0 < a" and "1 < years"
  shows "out_value (cagr (Fin a) (Fin 0) years) = Some PInf"
  using assms unit_exponent [OF assms(2)] by (simp add: cagr_def out_value_def)

lemma cagr_finite_or_absent:
  assumes "x \<noteq> 0" and "1 < years"
  shows "out_value (cagr (Fin a) (Fin x) years) = None
       \<or> (\<exists>v. out_value (cagr (Fin a) (Fin x) years) = Some (Fin v))"
  using assms(1) unit_exponent [OF assms(2)]
  by (simp add: cagr_def out_value_def)

lemma window_cagr_never_raises:
  assumes "valid_datetime end_date" and "table_windows end_date = Inr w"
  shows "\<exists>v. window_cagr df end_date (start_5y w) latest_price = Inr v"
    and "\<exists>v. window_cagr df end_date (start_10y w) latest_price = Inr v"
proof -
  note nz = elapsed_years_nonzero [OF assms]
  have "elapsed_years end_date (start_5y w) \<noteq> 0" using nz(1) by simp
  then show "\<exists>v. window_cagr df end_date (start_5y w) latest_price = Inr v"
    by (rule window_cagr_total)
  have "elapsed_years end_date (start_10y w) \<noteq> 0" using nz(2) by simp
  then show "\<exists>v. window_cagr df end_date (start_10y w) latest_price = Inr v"
    by (rule window_cagr_total)
qed

text \<open>
  C1. A zero or negative window close should leave the CAGR cell absent on an otherwise
  valid row. A negative close under a positive latest price does (\<open>negative_ratio_absent\<close>:
  the fractional power of the negative quotient is not a number). A zero close does not:
  for the series \<open>zero_series\<close>, whose first close is 0 and last close 100, the quotient
  is \<open>+\<infinity>\<close>, \<^verbatim>\<open>np.isnan\<close> lets it through, and both CAGR cells of the row hold
  \<open>+\<infinity>\<close>.
\<close>

theorem C1_zero_window_close_gives_infinity:
  "snd (hd zero_series) = Fin 0
   \<and> get_table [(''^GSPC'', ''S&P 500'')] (demo_fetch zero_series) demo_now =
       Inr [\<lparr>label = ''S&P 500'', f_5D = Some (Fin 0), f_MTD = Some (Fin 0),
              f_YTD = Some (Fin 0), f_5Y_CAGR = Some PInf, f_10Y_CAGR = Some PInf,
              f_Value = Fin 100\<rparr>]
   \<and> Some PInf \<noteq> (None :: float64 option)"
  by (simp add: get_table_def demo_table_windows zero_series_row) (simp add: zero_series_def)

lemma sparse_zero_series_distinct: "distinct (map fst sparse_zero_series)"
  by (simp add: sparse_zero_series_def midnight_def)

lemma sparse_zero_series_cagr:
  "window_cagr sparse_zero_series demo_now (start_5y demo_windows)
     (fround 2 (snd (last sparse_zero_series))) = Inr PInf"
  by (simp add: sparse_zero_series_def window_cagr_def Let_def cagr_def
      demo_elapsed_years_records demo_windows_def midnight_def dt_le_def round_nd_def
      round_half_even_def)

text \<open>
  C9. The CAGR computation should give a finite value or an absent cell for every series
  with at least two points. It never raises (\<open>window_cagr_never_raises\<close>), its years
  stay within a day or two of 5 and 10 (\<open>elapsed_years_window\<close>), and for finite closes
  and a window close other than zero the cell is finite or absent
  (\<open>cagr_finite_or_absent\<close>). But for the sparse series \<open>sparse_zero_series\<close>, whose
  first point at or after the 5y start has close 0, the 5Y cell is \<open>+\<infinity>\<close>: neither
  finite nor absent.
\<close>

theorem C9_sparse_zero_close_gives_infinity:
  "window_cagr sparse_zero_series demo_now (start_5y demo_windows)
     (fround 2 (snd (last sparse_zero_series))) = Inr PInf
   \<and> map_sum id (map f_5Y_CAGR)
        (get_table [(''^GSPC'', ''S&P 500'')] (demo_fetch sparse_zero_series) demo_now)
       = Inr [Some PInf]
   \<and> \<not> isfinite PInf
   \<and> Some PInf \<noteq> (None :: float64 option)"
proof -
  let ?sn = "(''^GSPC'', ''S&P 500'')"
  have len: "2 \<le> length sparse_zero_series" by (simp add: sparse_zero_series_def)
  from symbol_row_produced [where fetch = "demo_fetch sparse_zero_series" and sn = ?sn,
      OF demo_now_valid demo_table_windows demo_fetch_gspc len sparse_zero_series_distinct]
  obtain r c5 where
    c5: "window_cagr sparse_zero_series demo_now (start_5y demo_windows)
          (fround 2 (snd (last sparse_zero_series))) = Inr c5"
    and r: "symbol_row (demo_fetch sparse_zero_series) demo_now demo_windows ?sn = Produced r"
    and v: "f_5Y_CAGR r = out_value c5"
    by force
  from c5 have "c5 = PInf" unfolding sparse_zero_series_cagr by simp
  with v have "f_5Y_CAGR r = Some PInf" by (simp add: out_value_def)
  moreover have "get_table [?sn] (demo_fetch sparse_zero_series) demo_now = Inr [r]"
    by (simp add: get_table_def demo_table_windows r)
  ultimately have "map_sum id (map f_5Y_CAGR)
      (get_table [?sn] (demo_fetch sparse_zero_series) demo_now) = Inr [Some PInf]"
    by simp
  then show ?thesis using sparse_zero_series_cagr by simp
qed

end
